theory Spec2Isabelle
  imports Complex_Main "HOL-Library.Multiset" "HOL-Library.List_Lexorder"
begin

section \<open>Data model\<close>

text \<open>
  The point cloud of \<^verbatim>\<open>spyral/core/point_cloud.py\<close> is an N x 8 float64 array whose rows are
  \<^verbatim>\<open>[x, y, z, amplitude, integral, pad id, time, scale]\<close>. A row is modelled as a list of
  reals and the array as a list of rows; \<open>cloud_ok\<close> states the N x 8 shape that
  \<^verbatim>\<open>np.zeros((count, 8))\<close> gives. float64 values are modelled as reals and their arithmetic
  as exact; inf and nan are outside the model, and the one place where numpy would store
  inf or nan (the division of the z calibration) is an explicit outcome of its own. The
  rounding to two decimals of the smoothing is the exception: what it returns depends on
  the float64 rounding of a product, so \<^verbatim>\<open>np.round\<close> is modelled with that rounding.
\<close>

type_synonym row = "real list"
type_synonym cloud_array = "row list"

definition cloud_ok :: "cloud_array \<Rightarrow> bool" where
  "cloud_ok c = list_all (\<lambda>r. length r = 8) c"

datatype py_error = IndexError | ZeroDivisionError

text \<open>
  Modelled from the spec: the Peak, the Pad, the hardware id, the trace, the event and the
  pad map are declared in modules that are not part of the sources at hand
  (\<^verbatim>\<open>trace/get_event.py\<close>, \<^verbatim>\<open>core/pad_map.py\<close>). The records hold the attributes that
  \<^verbatim>\<open>load_cloud_from_get_event\<close> reads; \<^verbatim>\<open>pad.x\<close> and \<^verbatim>\<open>pad.y\<close> are \<open>pad_x\<close> and \<open>pad_y\<close>,
  \<^verbatim>\<open>trace.get_peaks()\<close> is \<open>peaks\<close> and \<^verbatim>\<open>trace.get_number_of_peaks()\<close> its length. The two
  lookups of the pad map are taken as parameters.
\<close>

record peak =
  centroid :: real
  amplitude :: real
  integral :: real

record pad_data =
  pad_x :: real
  pad_y :: real
  time_offset :: real
  gain :: real
  scale :: real

record hardware_id =
  channel_address :: nat
  pad_id :: int

record get_trace =
  hw_id :: hardware_id
  peaks :: "peak list"

record get_event =
  number :: int
  traces :: "get_trace list"

record pad_map =
  get_pad_from_hardware :: "hardware_id \<Rightarrow> int option"
  get_pad_data :: "int \<Rightarrow> pad_data option"

record point_cloud =
  event_number :: int
  cloud :: cloud_array

section \<open>Electron drift correction\<close>

text \<open>
  Modelled from the spec: \<^verbatim>\<open>BilinearInterpolator\<close> and \<^verbatim>\<open>clamp\<close> come from the module
  \<^verbatim>\<open>interpolate\<close>, which is not part of the sources at hand. The interpolator is a parameter
  returning the three components \<^verbatim>\<open>[rho_cor, trans_cor, z_cor]\<close>; \<open>clamp\<close> puts a value
  into \<open>[lo, hi]\<close>.
\<close>

record electron_corrector =
  interpolate :: "real \<Rightarrow> real \<Rightarrow> real \<times> real \<times> real"

definition clamp :: "real \<Rightarrow> real \<Rightarrow> real \<Rightarrow> real" where
  "clamp v lo hi = max lo (min v hi)"

text \<open>\<^verbatim>\<open>np.arctan2(y, x)\<close> on finite arguments.\<close>

definition arctan2 :: "real \<Rightarrow> real \<Rightarrow> real" where
  "arctan2 y x =
     (if 0 < x then arctan (y / x)
      else if x < 0 \<and> 0 \<le> y then arctan (y / x) + pi
      else if x < 0 then arctan (y / x) - pi
      else if 0 < y then pi / 2
      else if y < 0 then - (pi / 2)
      else 0)"

text \<open>\<^verbatim>\<open>np.linalg.norm\<close> of a vector.\<close>

definition linalg_norm :: "real list \<Rightarrow> real" where
  "linalg_norm v = sqrt (sum_list (map (\<lambda>a. a ^ 2) v))"

text \<open>
  \<^verbatim>\<open>ElectronCorrector.correct_point\<close>: a fresh zero array of the length of the point, its
  slice \<^verbatim>\<open>[3:]\<close> copied from the point, then the entries 0, 1 and 2 written. A point of
  fewer than three entries makes \<^verbatim>\<open>point[1]\<close> or \<^verbatim>\<open>point[2]\<close> raise.
\<close>

definition correct_point :: "electron_corrector \<Rightarrow> row \<Rightarrow> py_error + row" where
  "correct_point ec point =
     (if length point < 3 then Inl IndexError
      else
        let corrected_point = take 3 (replicate (length point) 0) @ drop 3 point;
            radius = linalg_norm (take 2 point);
            azimuthal = arctan2 (point ! 1) (point ! 0);
            (c0, c1, c2) = interpolate ec radius (point ! 2);
            z_correction = clamp c2 0 1000;
            corrected_radius = sqrt ((radius + c0) ^ 2 + c1 ^ 2);
            corrected_azim = azimuthal + arctan2 c1 (radius + c0)
        in Inr (corrected_point
                  [0 := corrected_radius * cos corrected_azim,
                   1 := corrected_radius * sin corrected_azim,
                   2 := point ! 2 - z_correction]))"

section \<open>Construction of the cloud\<close>

text \<open>
  The inner loop of \<^verbatim>\<open>load_cloud_from_get_event\<close> over the peaks of one trace. The state is
  the array and the running index \<^verbatim>\<open>idx\<close>. A write past the end of the array raises. The
  pad id written to column 5 is \<^verbatim>\<open>trace.hw_id.pad_id\<close>.
\<close>

definition point_of_peak :: "pad_data \<Rightarrow> hardware_id \<Rightarrow> peak \<Rightarrow> row" where
  "point_of_peak pad hw pk =
     [pad_x pad, pad_y pad, centroid pk + time_offset pad, amplitude pk,
      integral pk * gain pad, of_int (pad_id hw), centroid pk + time_offset pad, scale pad]"

fun fill_peaks ::
  "pad_data \<Rightarrow> hardware_id \<Rightarrow> electron_corrector option \<Rightarrow> peak list \<Rightarrow>
   cloud_array \<times> nat \<Rightarrow> py_error + cloud_array \<times> nat" where
  "fill_peaks pad hw corrector [] (c, idx) = Inr (c, idx)"
| "fill_peaks pad hw corrector (pk # pks) (c, idx) =
     (if length c \<le> idx then Inl IndexError
      else
        (case (case corrector of
                 None \<Rightarrow> Inr (point_of_peak pad hw pk)
               | Some ec \<Rightarrow> correct_point ec (point_of_peak pad hw pk)) of
           Inl e \<Rightarrow> Inl e
         | Inr r \<Rightarrow> fill_peaks pad hw corrector pks (c[idx := r], Suc idx)))"

text \<open>
  The outer loop over the traces. A trace without peaks, a trace whose hardware id has no
  pad, and a trace whose pad has no data are skipped (\<^verbatim>\<open>continue\<close>); the warning logged in
  the second case does not touch the cloud. The local \<^verbatim>\<open>pid\<close> is assigned the resolved pad
  number when it differs from the hardware one, and is not read afterwards.
\<close>

fun load_traces ::
  "pad_map \<Rightarrow> electron_corrector option \<Rightarrow> get_trace list \<Rightarrow>
   cloud_array \<times> nat \<Rightarrow> py_error + cloud_array \<times> nat" where
  "load_traces pmap corrector [] st = Inr st"
| "load_traces pmap corrector (t # ts) st =
     (if length (peaks t) = 0 then load_traces pmap corrector ts st
      else
        (case get_pad_from_hardware pmap (hw_id t) of
           None \<Rightarrow> load_traces pmap corrector ts st
         | Some check \<Rightarrow>
             let pid = (if check \<noteq> pad_id (hw_id t) then check else pad_id (hw_id t)) in
             (case get_pad_data pmap check of
                None \<Rightarrow> load_traces pmap corrector ts st
              | Some pad \<Rightarrow>
                  (case fill_peaks pad (hw_id t) corrector (peaks t) st of
                     Inl e \<Rightarrow> Inl e
                   | Inr st' \<Rightarrow> load_traces pmap corrector ts st'))))"

definition load_cloud_from_get_event ::
  "point_cloud \<Rightarrow> get_event \<Rightarrow> pad_map \<Rightarrow> electron_corrector option \<Rightarrow> py_error + point_cloud" where
  "load_cloud_from_get_event pc event pmap corrector =
     (let count = sum_list (map (\<lambda>t. length (peaks t)) (traces event));
          zeros = replicate count (replicate 8 0)
      in case load_traces pmap corrector (traces event) (zeros, 0) of
           Inl e \<Rightarrow> Inl e
         | Inr (c, idx) \<Rightarrow> Inr (pc\<lparr>event_number := number event, cloud := c\<rparr>))"

section \<open>Calibration of the z position\<close>

text \<open>
  \<^verbatim>\<open>calibrate_z_position\<close> has no check of its arguments. The quotient is computed once for
  each row, inside the loop, so an empty cloud divides nothing. Where
  \<^verbatim>\<open>window_tb - micromegas_tb\<close> is zero numpy divides a float64 by zero: it warns and stores
  inf or nan, which no real number models; that outcome is \<open>Inl DivideByZeroWarning\<close>.
\<close>

datatype np_warning = DivideByZeroWarning

fun calibrate_rows :: "real \<Rightarrow> real \<Rightarrow> real \<Rightarrow> real \<Rightarrow> cloud_array \<Rightarrow> np_warning + cloud_array" where
  "calibrate_rows micromegas_tb window_tb detector_length ic_correction [] = Inr []"
| "calibrate_rows micromegas_tb window_tb detector_length ic_correction (point # ps) =
     (if window_tb - micromegas_tb = 0 then Inl DivideByZeroWarning
      else
        (case calibrate_rows micromegas_tb window_tb detector_length ic_correction ps of
           Inl w \<Rightarrow> Inl w
         | Inr ps' \<Rightarrow>
             Inr (point[2 := (window_tb - point ! 6) / (window_tb - micromegas_tb)
                               * detector_length - ic_correction] # ps')))"

definition calibrate_z_position ::
  "real \<Rightarrow> real \<Rightarrow> real \<Rightarrow> real \<Rightarrow> point_cloud \<Rightarrow> np_warning + point_cloud" where
  "calibrate_z_position micromegas_tb window_tb detector_length ic_correction pc =
     (case calibrate_rows micromegas_tb window_tb detector_length ic_correction (cloud pc) of
        Inl w \<Rightarrow> Inl w
      | Inr c \<Rightarrow> Inr (pc\<lparr>cloud := c\<rparr>))"

section \<open>Smoothing\<close>

text \<open>
  The mask of \<^verbatim>\<open>smooth_cloud\<close>: the rows whose first three columns are at a distance
  strictly below \<^verbatim>\<open>max_distance\<close> from those of the point.
\<close>

definition spatial_distance :: "row \<Rightarrow> row \<Rightarrow> real" where
  "spatial_distance q point = linalg_norm (map2 (\<lambda>a b. a - b) (take 3 q) (take 3 point))"

definition neighbors :: "cloud_array \<Rightarrow> real \<Rightarrow> row \<Rightarrow> cloud_array" where
  "neighbors c max_distance point = filter (\<lambda>q. spatial_distance q point < max_distance) c"

text \<open>
  \<^verbatim>\<open>np.average(a, axis=0, weights=w)\<close>: the weighted mean of every column; numpy raises
  \<^verbatim>\<open>ZeroDivisionError\<close> when the weights sum to zero.
\<close>

definition np_average :: "cloud_array \<Rightarrow> real list \<Rightarrow> py_error + row" where
  "np_average a w =
     (let scl = sum_list w
      in if scl = 0 then Inl ZeroDivisionError
         else Inr (map (\<lambda>j. sum_list (map2 (\<lambda>r wi. r ! j * wi) a w) / scl)
                       [0..<length (hd a)]))"

text \<open>\<^verbatim>\<open>np.isclose(a, b)\<close> with its default tolerances.\<close>

definition isclose :: "real \<Rightarrow> real \<Rightarrow> bool" where
  "isclose a b = (\<bar>a - b\<bar> \<le> 1 / 10 ^ 8 + 1 / 10 ^ 5 * \<bar>b\<bar>)"

text \<open>
  The body of the loop for one point: the row that ends up at its index in
  \<^verbatim>\<open>smoothed_cloud\<close>. Both \<^verbatim>\<open>continue\<close> branches leave the zero row of \<^verbatim>\<open>np.zeros\<close> there.
\<close>

definition smooth_point :: "cloud_array \<Rightarrow> real \<Rightarrow> row \<Rightarrow> py_error + row" where
  "smooth_point c max_distance point =
     (let nbs = neighbors c max_distance point
      in if length nbs < 2 then Inr (replicate (length point) 0)
         else
           (case np_average nbs (map (\<lambda>r. r ! 3) nbs) of
              Inl e \<Rightarrow> Inl e
            | Inr weighted_average \<Rightarrow>
                if isclose (weighted_average ! 4) 0 then Inr (replicate (length point) 0)
                else Inr weighted_average))"

fun smooth_rows :: "cloud_array \<Rightarrow> real \<Rightarrow> cloud_array \<Rightarrow> py_error + cloud_array" where
  "smooth_rows c max_distance [] = Inr []"
| "smooth_rows c max_distance (point # ps) =
     (case smooth_point c max_distance point of
        Inl e \<Rightarrow> Inl e
      | Inr r \<Rightarrow>
          (case smooth_rows c max_distance ps of
             Inl e \<Rightarrow> Inl e
           | Inr rs \<Rightarrow> Inr (r # rs)))"

text \<open>
  \<^verbatim>\<open>np.rint\<close>: the nearest integer, a half going to the even one.
\<close>

definition rint :: "real \<Rightarrow> real" where
  "rint v =
     (let f = \<lfloor>v\<rfloor>; d = v - of_int f
      in if d < 1 / 2 then of_int f
         else if 1 / 2 < d then of_int (f + 1)
         else if even f then of_int f else of_int (f + 1))"

text \<open>
  The float64 nearest to a real, ties to the even significand: 53 significant bits, so a
  value in \<open>[2^e, 2^(e+1))\<close> is rounded to a multiple of \<open>2^(e-52)\<close>. The exponent is not
  bounded: overflow to inf and the subnormal range are outside the model.
\<close>

definition float64 :: "real \<Rightarrow> real" where
  "float64 v =
     (if v = 0 then 0
      else
        let e = \<lfloor>log 2 \<bar>v\<bar>\<rfloor>;
            ulp = 2 powi (e - 52)
        in rint (v / ulp) * ulp)"

text \<open>
  \<^verbatim>\<open>np.round(v, decimals=2)\<close> on float64: numpy computes
  \<^verbatim>\<open>np.true_divide(np.rint(v * 100), 100)\<close>, so the product is rounded to a float64 before
  \<^verbatim>\<open>rint\<close> sees it, and the quotient is rounded to a float64 again. The result can differ
  from the exact decimal rounding of \<open>v\<close> when \<open>v * 100\<close> is within one rounding of a half.
\<close>

definition np_round2 :: "real \<Rightarrow> real" where
  "np_round2 v = float64 (rint (float64 (v * 100)) / 100)"

definition rounded_spatial :: "row \<Rightarrow> row" where
  "rounded_spatial r = map np_round2 (take 3 r)"

text \<open>
  \<^verbatim>\<open>np.unique(keys, axis=0, return_index=True)\<close>: the distinct rows in lexicographic order,
  and for each of them the index of its first occurrence.
\<close>

fun index_of :: "'a \<Rightarrow> 'a list \<Rightarrow> nat" where
  "index_of k [] = 0"
| "index_of k (a # as) = (if a = k then 0 else Suc (index_of k as))"

definition np_unique_index :: "row list \<Rightarrow> nat list" where
  "np_unique_index keys = map (\<lambda>k. index_of k keys) (sort (remdups keys))"

definition smooth_cloud :: "real \<Rightarrow> point_cloud \<Rightarrow> py_error + point_cloud" where
  "smooth_cloud max_distance pc =
     (case smooth_rows (cloud pc) max_distance (cloud pc) of
        Inl e \<Rightarrow> Inl e
      | Inr smoothed \<Rightarrow>
          let smoothed_cloud = filter (\<lambda>r. r ! 3 \<noteq> 0) smoothed;
              indicies = np_unique_index (map rounded_spatial smoothed_cloud)
          in Inr (pc\<lparr>cloud := map (\<lambda>i. smoothed_cloud ! i) indicies\<rparr>))"

section \<open>Sorting in z\<close>

text \<open>
  \<^verbatim>\<open>sort_in_z\<close> gathers the rows by \<^verbatim>\<open>np.argsort(self.cloud[:, 2])\<close>, called with its default
  kind. The order that call gives to rows with the same z is decided inside numpy's sort
  kernel, which numpy chooses at run time for the processor and which is no part of the
  sources; the method has no definition here.
\<close>

section \<open>Notions used in the statements\<close>

text \<open>
  The count of the data model's invariant, in the spec's words: the peaks of the channels
  whose hardware id maps to a pad.
\<close>

definition peaks_of_mapped_channels :: "pad_map \<Rightarrow> get_event \<Rightarrow> nat" where
  "peaks_of_mapped_channels pmap event =
     sum_list (map (\<lambda>t. length (peaks t))
       (filter (\<lambda>t. get_pad_from_hardware pmap (hw_id t) \<noteq> None) (traces event)))"

text \<open>
  The calibrated z of the spec, in its words:
  \<^verbatim>\<open>((window_ref - raw_time_field) / (window_ref - micromegas_ref)) * detector_length - ic_correction\<close>,
  the raw time being column 6.
\<close>

definition calibrated_z :: "real \<Rightarrow> real \<Rightarrow> real \<Rightarrow> real \<Rightarrow> row \<Rightarrow> real" where
  "calibrated_z micromegas_ref window_ref detector_length ic_correction point =
     ((window_ref - point ! 6) / (window_ref - micromegas_ref)) * detector_length - ic_correction"

text \<open>
  The array \<^verbatim>\<open>smoothed_cloud\<close> of \<^verbatim>\<open>smooth_cloud\<close> after the rows with a zero amplitude are
  removed and before the duplicates are.
\<close>

definition retained_rows :: "real \<Rightarrow> point_cloud \<Rightarrow> cloud_array" where
  "retained_rows max_distance pc =
     (case smooth_rows (cloud pc) max_distance (cloud pc) of
        Inl e \<Rightarrow> []
      | Inr smoothed \<Rightarrow> filter (\<lambda>r. r ! 3 \<noteq> 0) smoothed)"

section \<open>Concrete events and clouds\<close>

text \<open>An event of one channel with one peak, and a pad map that knows no channel.\<close>

definition unmapped_event :: get_event where
  "unmapped_event =
     \<lparr>number = 7,
      traces = [\<lparr>hw_id = \<lparr>channel_address = 0, pad_id = 3\<rparr>,
                 peaks = [\<lparr>centroid = 100, amplitude = 50, integral = 10\<rparr>]\<rparr>]\<rparr>"

definition empty_pad_map :: pad_map where
  "empty_pad_map = \<lparr>get_pad_from_hardware = (\<lambda>hw. None), get_pad_data = (\<lambda>p. None)\<rparr>"

text \<open>
  An event of one channel whose hardware id carries pad 1, and a pad map that resolves
  every hardware id to pad 2.
\<close>

definition remapped_event :: get_event where
  "remapped_event =
     \<lparr>number = 7,
      traces = [\<lparr>hw_id = \<lparr>channel_address = 0, pad_id = 1\<rparr>,
                 peaks = [\<lparr>centroid = 100, amplitude = 50, integral = 10\<rparr>]\<rparr>]\<rparr>"

definition remapping_pad_map :: pad_map where
  "remapping_pad_map =
     \<lparr>get_pad_from_hardware = (\<lambda>hw. Some 2),
      get_pad_data = (\<lambda>p. if p = 2
         then Some \<lparr>pad_x = 10, pad_y = 0, time_offset = 5, gain = 2, scale = 1\<rparr>
         else None)\<rparr>"

text \<open>A corrector whose interpolated correction is zero everywhere.\<close>

definition null_corrector :: electron_corrector where
  "null_corrector = \<lparr>interpolate = (\<lambda>r t. (0, 0, 0))\<rparr>"

text \<open>A cloud of two points with the same raw time.\<close>

definition two_point_cloud :: point_cloud where
  "two_point_cloud =
     \<lparr>event_number = 4,
      cloud = [[10, 0, 105, 50, 20, 1, 105, 1], [20, 5, 95, 30, 8, 2, 105, 1]]\<rparr>"

text \<open>Two rows at the same place whose amplitudes are both zero.\<close>

definition zero_weight_cloud :: point_cloud where
  "zero_weight_cloud =
     \<lparr>event_number = 4,
      cloud = [[0, 0, 7, 0, 0, 0, 0, 0], [0, 0, 7, 0, 0, 0, 0, 0]]\<rparr>"


text \<open>
  Three points on a line, 0.006 apart, smoothed with radius 0.01: the middle one has both
  others as neighbours, the outer ones only the middle one.
\<close>

definition colinear_cloud :: point_cloud where
  "colinear_cloud =
     \<lparr>event_number = 4,
      cloud = [[3 / 250, 0, 0, 1, 1, 1, 0, 1], [3 / 500, 0, 0, 1, 1, 2, 0, 1],
               [0, 0, 0, 1, 1, 3, 0, 1]]\<rparr>"

text \<open>
  Two pairs of coincident points whose x are the float64 nearest to 0.01 and to 0.015. The
  second is just below 0.015; its product with 100 rounds to the float64 1.5.
\<close>

definition half_way_cloud :: point_cloud where
  "half_way_cloud =
     \<lparr>event_number = 4,
      cloud = [[float64 (1 / 100), 0, 0, 1, 1, 1, 0, 1], [float64 (1 / 100), 0, 0, 1, 1, 2, 0, 1],
               [float64 (3 / 200), 0, 0, 1, 1, 3, 0, 1], [float64 (3 / 200), 0, 0, 1, 1, 4, 0, 1]]\<rparr>"

section \<open>Construction: shape of the loaded cloud\<close>

lemma fill_peaks_length:
  "fill_peaks pad hw cor pks (c, idx) = Inr (c', idx') \<Longrightarrow>
     length c' = length c \<and> idx' = idx + length pks"
proof (induction pks arbitrary: c idx)
  case Nil
  then show ?case by simp
next
  case (Cons pk pks)
  from Cons.prems obtain r where
    "fill_peaks pad hw cor pks (c[idx := r], Suc idx) = Inr (c', idx')"
    by (auto split: if_splits sum.splits option.splits)
  from Cons.IH [OF this] show ?case by simp
qed

lemma load_traces_length:
  "load_traces pmap cor ts (c, idx) = Inr (c', idx') \<Longrightarrow> length c' = length c"
proof (induction ts arbitrary: c idx)
  case Nil
  then show ?case by simp
next
  case (Cons t ts)
  then show ?case
    by (auto simp: Let_def split: if_splits sum.splits option.splits dest: fill_peaks_length)
qed

text \<open>
  The array keeps the size it was given before the loop: one row for every peak of every
  trace, whether or not the trace is skipped.
\<close>

lemma load_cloud_length:
  assumes "load_cloud_from_get_event pc event pmap cor = Inr pc'"
  shows "length (cloud pc') = sum_list (map (\<lambda>t. length (peaks t)) (traces event))"
  using assms
  by (auto simp: load_cloud_from_get_event_def Let_def split: sum.splits dest: load_traces_length)

lemma correct_point_8: "length p = 8 \<Longrightarrow> \<exists>q. correct_point ec p = Inr q \<and> length q = 8"
  by (simp add: correct_point_def Let_def split: prod.splits)

lemma fill_peaks_total:
  "idx + length pks \<le> length c \<Longrightarrow>
     \<exists>c'. fill_peaks pad hw cor pks (c, idx) = Inr (c', idx + length pks) \<and> length c' = length c"
proof (induction pks arbitrary: c idx)
  case Nil
  then show ?case by simp
next
  case (Cons pk pks)
  have len: "length (point_of_peak pad hw pk) = 8" by (simp add: point_of_peak_def)
  obtain r where r: "(case cor of None \<Rightarrow> Inr (point_of_peak pad hw pk)
               | Some ec \<Rightarrow> correct_point ec (point_of_peak pad hw pk)) = Inr r"
    using correct_point_8 [OF len] by (cases cor) auto
  from Cons.prems have "Suc idx + length pks \<le> length (c[idx := r])" by simp
  from Cons.IH [OF this] Cons.prems r show ?case by auto
qed

lemma load_traces_total:
  "idx + sum_list (map (\<lambda>t. length (peaks t)) ts) \<le> length c \<Longrightarrow>
     \<exists>c' idx'. load_traces pmap cor ts (c, idx) = Inr (c', idx') \<and> length c' = length c"
proof (induction ts arbitrary: c idx)
  case Nil
  then show ?case by simp
next
  case (Cons t ts)
  have skip: "\<exists>c' idx'. load_traces pmap cor ts (c, idx) = Inr (c', idx') \<and> length c' = length c"
    using Cons.prems by (intro Cons.IH) simp
  show ?case
  proof (cases "length (peaks t) = 0 \<or> get_pad_from_hardware pmap (hw_id t) = None
      \<or> get_pad_data pmap (the (get_pad_from_hardware pmap (hw_id t))) = None")
    case True
    with skip show ?thesis by (auto simp: Let_def split: option.splits)
  next
    case False
    then obtain check pad where ch: "get_pad_from_hardware pmap (hw_id t) = Some check"
      and pd: "get_pad_data pmap check = Some pad" and ne: "length (peaks t) \<noteq> 0" by auto
    from Cons.prems have "idx + length (peaks t) \<le> length c" by simp
    from fill_peaks_total [OF this] obtain c1 where
      f: "fill_peaks pad (hw_id t) cor (peaks t) (c, idx) = Inr (c1, idx + length (peaks t))"
      and l: "length c1 = length c" by blast
    from Cons.prems l
    have "idx + length (peaks t) + sum_list (map (\<lambda>t. length (peaks t)) ts) \<le> length c1"
      by simp
    from Cons.IH [OF this] l ch pd ne f show ?thesis by (auto simp: Let_def)
  qed
qed

text \<open>The running index never leaves the array: the construction always returns.\<close>

lemma load_cloud_total:
  "\<exists>pc'. load_cloud_from_get_event pc event pmap cor = Inr pc'"
proof -
  let ?n = "sum_list (map (\<lambda>t. length (peaks t)) (traces event))"
  have "0 + ?n \<le> length (replicate ?n (replicate 8 (0::real)))" by simp
  from load_traces_total [OF this, of pmap cor] obtain c' idx' where
    "load_traces pmap cor (traces event) (replicate ?n (replicate 8 0), 0) = Inr (c', idx')"
    by blast
  then show ?thesis
    by (simp add: load_cloud_from_get_event_def Let_def)
qed

text \<open>
  C1. The claim: the loaded cloud has as many rows as there are peaks on the channels that
  map to a pad, and a channel whose pad lookup fails contributes no row. The code sizes
  the array by the peaks of all traces and never trims it: on an event whose only channel
  has one peak and no pad, the cloud has one all-zero row, where the claim's count is 0.
\<close>

theorem C1_unmapped_channel_leaves_zero_row:
  "load_cloud_from_get_event pc unmapped_event empty_pad_map None
     = Inr (pc\<lparr>event_number := 7, cloud := [[0, 0, 0, 0, 0, 0, 0, 0]]\<rparr>)
   \<and> peaks_of_mapped_channels empty_pad_map unmapped_event = 0"
  by (simp add: load_cloud_from_get_event_def unmapped_event_def empty_pad_map_def
      peaks_of_mapped_channels_def eval_nat_numeral)

text \<open>
  C2. The claim: where the pad map resolves a hardware id to a pad number other than the
  one the hardware id carries, the points of that channel carry the resolved number in
  column 5. The code assigns the resolved number to \<^verbatim>\<open>pid\<close> and then writes
  \<^verbatim>\<open>trace.hw_id.pad_id\<close>: with hardware pad 1 resolved to pad 2, column 5 holds 1.
\<close>

theorem C2_pad_id_column_is_hardware_pad_id:
  "get_pad_from_hardware remapping_pad_map (hw_id (hd (traces remapped_event))) = Some 2
   \<and> pad_id (hw_id (hd (traces remapped_event))) = 1
   \<and> load_cloud_from_get_event pc remapped_event remapping_pad_map None
       = Inr (pc\<lparr>event_number := 7, cloud := [[10, 0, 105, 50, 20, 1, 105, 1]]\<rparr>)"
  by (simp add: load_cloud_from_get_event_def remapped_event_def remapping_pad_map_def
      point_of_peak_def)

text \<open>
  C3. A channel whose pad is (x = 10, y = 0, time offset 5, gain 2, scale 1), with the one
  peak (centroid 100, amplitude 50, integral 10) and no corrector, gives the single point
  [10, 0, 105, 50, 20, pad id, 105, 1], the pad id being the one of the hardware id.
  Calibrating it with micromegas 50, window 500, length 1000 and no ion chamber correction
  puts (500 - 105) / (500 - 50) * 1000 = 7900 / 9 into the z column, which is 877.78 to
  two decimals.
\<close>

theorem C3_end_to_end_example:
  assumes "get_pad_from_hardware pmap hw = Some check"
    and "get_pad_data pmap check
           = Some \<lparr>pad_x = 10, pad_y = 0, time_offset = 5, gain = 2, scale = 1\<rparr>"
  shows "load_cloud_from_get_event pc
           \<lparr>number = n,
            traces = [\<lparr>hw_id = hw,
                       peaks = [\<lparr>centroid = 100, amplitude = 50, integral = 10\<rparr>]\<rparr>]\<rparr>
           pmap None
         = Inr (pc\<lparr>event_number := n,
                   cloud := [[10, 0, 105, 50, 20, of_int (pad_id hw), 105, 1]]\<rparr>)
       \<and> calibrate_z_position 50 500 1000 0
           (pc\<lparr>event_number := n,
               cloud := [[10, 0, 105, 50, 20, of_int (pad_id hw), 105, 1]]\<rparr>)
         = Inr (pc\<lparr>event_number := n,
                   cloud := [[10, 0, 7900 / 9, 50, 20, of_int (pad_id hw), 105, 1]]\<rparr>)
       \<and> \<bar>(500 - 105) / (500 - 50) * 1000 - 877.78\<bar> < (0.005 :: real)"
  using assms
  by (simp add: load_cloud_from_get_event_def point_of_peak_def calibrate_z_position_def)

theorem C3_end_to_end_example_witness:
  "load_cloud_from_get_event \<lparr>event_number = - 1, cloud = []\<rparr>
     \<lparr>number = 4,
      traces = [\<lparr>hw_id = \<lparr>channel_address = 0, pad_id = 1\<rparr>,
                 peaks = [\<lparr>centroid = 100, amplitude = 50, integral = 10\<rparr>]\<rparr>]\<rparr>
     remapping_pad_map None
   = Inr \<lparr>event_number = 4, cloud = [[10, 0, 105, 50, 20, 1, 105, 1]]\<rparr>
   \<and> calibrate_z_position 50 500 1000 0
       \<lparr>event_number = 4, cloud = [[10, 0, 105, 50, 20, 1, 105, 1]]\<rparr>
     = Inr \<lparr>event_number = 4, cloud = [[10, 0, 7900 / 9, 50, 20, 1, 105, 1]]\<rparr>"
  using C3_end_to_end_example
    [of remapping_pad_map "\<lparr>channel_address = 0, pad_id = 1\<rparr>" 2
        "\<lparr>event_number = - 1, cloud = []\<rparr>" 4]
  by (simp add: remapping_pad_map_def)

section \<open>Field correction: the frame\<close>

lemma correct_point_total:
  "3 \<le> length point \<Longrightarrow> \<exists>q. correct_point ec point = Inr q"
  by (simp add: correct_point_def Let_def split: prod.splits)

lemma correct_point_frame:
  "correct_point ec point = Inr q \<Longrightarrow> length q = length point \<and> drop 3 q = drop 3 point"
  by (auto simp: correct_point_def Let_def split: if_splits prod.splits)

text \<open>
  C5. \<^verbatim>\<open>correct_point\<close> returns a point of the same length whose slice \<^verbatim>\<open>[3:]\<close> is that of the
  input: for a point of 8 entries, the entries 3 to 7 (amplitude, integral, pad id, raw
  time, scale) are those of the input, and only the entries 0 to 2 can differ.
\<close>

theorem C5_correction_keeps_fields_3_to_7:
  assumes "3 \<le> length point"
  shows "\<exists>q. correct_point ec point = Inr q \<and> length q = length point
            \<and> drop 3 q = drop 3 point
            \<and> (\<forall>i. 3 \<le> i \<and> i < length point \<longrightarrow> q ! i = point ! i)"
proof -
  from correct_point_total [OF assms] obtain q where q: "correct_point ec point = Inr q"
    by blast
  from correct_point_frame [OF q] have len: "length q = length point"
    and dr: "drop 3 q = drop 3 point" by simp_all
  have "q ! i = point ! i" if "3 \<le> i" "i < length point" for i
  proof -
    have "q ! i = drop 3 q ! (i - 3)" using that len by simp
    also have "\<dots> = drop 3 point ! (i - 3)" by (simp only: dr)
    also have "\<dots> = point ! i" using that by simp
    finally show ?thesis .
  qed
  with q len dr show ?thesis by blast
qed

theorem C5_correction_keeps_fields_3_to_7_witness:
  "\<exists>q. correct_point null_corrector [3, 4, 105, 50, 20, 1, 105, 1] = Inr q
      \<and> drop 3 q = [50, 20, 1, 105, 1]"
  using C5_correction_keeps_fields_3_to_7 [of "[3, 4, 105, 50, 20, 1, 105, 1]" null_corrector]
  by auto

section \<open>Calibration of the z position\<close>

lemma calibrate_rows_equal:
  "c \<noteq> [] \<Longrightarrow> calibrate_rows t t detector_length ic_correction c = Inl DivideByZeroWarning"
  by (cases c) simp_all

lemma calibrate_rows_distinct:
  assumes "window_tb \<noteq> micromegas_tb"
  shows "calibrate_rows micromegas_tb window_tb detector_length ic_correction c
       = Inr (map (\<lambda>p. p[2 := calibrated_z micromegas_tb window_tb detector_length ic_correction p]) c)"
proof (induction c)
  case Nil
  show ?case by simp
next
  case (Cons p ps)
  from assms have "window_tb - micromegas_tb \<noteq> 0" by simp
  with Cons show ?case by (simp add: calibrated_z_def)
qed

text \<open>
  C4. With distinct time references, \<^verbatim>\<open>calibrate_z_position\<close> returns the cloud in which
  column 2 of every row is replaced by
  ((window - raw time) / (window - micromegas)) * length - ic correction, the raw time being
  column 6 of the same row, and nothing else changes; hence two points of the cloud with
  the same raw time get the same calibrated z.
\<close>

theorem C4_calibration_formula:
  assumes "window_tb \<noteq> micromegas_tb" and "cloud_ok (cloud pc)"
  shows "calibrate_z_position micromegas_tb window_tb detector_length ic_correction pc
           = Inr (pc\<lparr>cloud := map (\<lambda>p. p[2 := calibrated_z micromegas_tb window_tb
                                                   detector_length ic_correction p]) (cloud pc)\<rparr>)
       \<and> (\<forall>p \<in> set (cloud pc). \<forall>q \<in> set (cloud pc). p ! 6 = q ! 6 \<longrightarrow>
            p[2 := calibrated_z micromegas_tb window_tb detector_length ic_correction p] ! 2
          = q[2 := calibrated_z micromegas_tb window_tb detector_length ic_correction q] ! 2)"
proof (intro conjI ballI impI)
  show "calibrate_z_position micromegas_tb window_tb detector_length ic_correction pc
           = Inr (pc\<lparr>cloud := map (\<lambda>p. p[2 := calibrated_z micromegas_tb window_tb
                                                   detector_length ic_correction p]) (cloud pc)\<rparr>)"
    by (simp add: calibrate_z_position_def calibrate_rows_distinct [OF assms(1)])
next
  fix p q assume p: "p \<in> set (cloud pc)" and q: "q \<in> set (cloud pc)" and eq: "p ! 6 = q ! 6"
  from p q assms(2) have "length p = 8" "length q = 8"
    by (simp_all add: cloud_ok_def list_all_iff)
  moreover from eq have "calibrated_z micromegas_tb window_tb detector_length ic_correction p
      = calibrated_z micromegas_tb window_tb detector_length ic_correction q"
    by (simp only: calibrated_z_def)
  ultimately show "p[2 := calibrated_z micromegas_tb window_tb detector_length ic_correction p] ! 2
          = q[2 := calibrated_z micromegas_tb window_tb detector_length ic_correction q] ! 2"
    by simp
qed

theorem C4_calibration_formula_witness:
  "calibrate_z_position 50 500 1000 0 two_point_cloud
     = Inr \<lparr>event_number = 4,
            cloud = [[10, 0, 7900 / 9, 50, 20, 1, 105, 1], [20, 5, 7900 / 9, 30, 8, 2, 105, 1]]\<rparr>"
  using C4_calibration_formula
    [where window_tb = 500 and micromegas_tb = 50 and pc = two_point_cloud
       and detector_length = 1000 and ic_correction = 0]
  by (simp add: two_point_cloud_def cloud_ok_def calibrated_z_def)

text \<open>
  C10. The division by \<^verbatim>\<open>window_tb - micromegas_tb\<close> has no guard. With distinct references
  the calibration always returns a cloud; with equal references and a cloud that is not
  empty the division by zero is reached, and nothing in the code prevents it.
\<close>

theorem C10_calibration_total_iff_distinct_references:
  "(window_tb \<noteq> micromegas_tb \<longrightarrow>
      (\<exists>pc'. calibrate_z_position micromegas_tb window_tb detector_length ic_correction pc
                = Inr pc'))
   \<and> (window_tb = micromegas_tb \<and> cloud pc \<noteq> [] \<longrightarrow>
        calibrate_z_position micromegas_tb window_tb detector_length ic_correction pc
          = Inl DivideByZeroWarning)"
  by (simp add: calibrate_z_position_def calibrate_rows_distinct calibrate_rows_equal)

theorem C10_calibration_total_iff_distinct_references_witness:
  "(\<exists>pc'. calibrate_z_position 50 500 1000 0 two_point_cloud = Inr pc')
   \<and> calibrate_z_position 50 50 1000 0 two_point_cloud = Inl DivideByZeroWarning"
  using C10_calibration_total_iff_distinct_references
      [where window_tb = 500 and micromegas_tb = 50 and pc = two_point_cloud
         and detector_length = 1000 and ic_correction = 0]
    C10_calibration_total_iff_distinct_references
      [where window_tb = 50 and micromegas_tb = 50 and pc = two_point_cloud
         and detector_length = 1000 and ic_correction = 0]
  by (simp add: two_point_cloud_def)

section \<open>Smoothing\<close>

text \<open>The strict comparison of the mask, without the square root.\<close>

lemma linalg_norm_less_iff:
  "linalg_norm v < d \<longleftrightarrow> 0 < d \<and> sum_list (map (\<lambda>a. a ^ 2) v) < d ^ 2"
proof -
  have nn: "0 \<le> sum_list (map (\<lambda>a. a ^ 2) v)"
    by (rule sum_list_nonneg) auto
  show ?thesis
  proof (cases "0 < d")
    case True
    then have "sqrt (sum_list (map (\<lambda>a. a ^ 2) v)) < d \<longleftrightarrow> sum_list (map (\<lambda>a. a ^ 2) v) < d ^ 2"
      using nn real_less_lsqrt real_sqrt_less_iff
      by (metis abs_of_pos less_eq_real_def real_sqrt_abs)
    with True show ?thesis by (simp add: linalg_norm_def)
  next
    case False
    have "0 \<le> sqrt (sum_list (map (\<lambda>a. a ^ 2) v))" using nn by simp
    with False have "\<not> sqrt (sum_list (map (\<lambda>a. a ^ 2) v)) < d" by linarith
    with False show ?thesis by (simp add: linalg_norm_def)
  qed
qed

text \<open>
  The only exception of the loop is the one of \<^verbatim>\<open>np.average\<close>: a neighbourhood of at least
  two rows whose amplitudes sum to zero. Nothing catches it.
\<close>

lemma smooth_point_error:
  "smooth_point c d p = Inl e \<longleftrightarrow>
     e = ZeroDivisionError \<and> 2 \<le> length (neighbors c d p)
       \<and> sum_list (map (\<lambda>r. r ! 3) (neighbors c d p)) = 0"
  by (auto simp: smooth_point_def np_average_def Let_def split: if_splits)

lemma smooth_rows_error:
  "smooth_rows c d ps = Inl e \<Longrightarrow> \<exists>p \<in> set ps. smooth_point c d p = Inl e"
proof (induction ps)
  case Nil
  then show ?case by simp
next
  case (Cons p ps)
  then show ?case by (auto split: sum.splits)
qed

lemma smooth_rows_raises:
  "p \<in> set ps \<Longrightarrow> smooth_point c d p = Inl e \<Longrightarrow> \<exists>e'. smooth_rows c d ps = Inl e'"
proof (induction ps)
  case Nil
  then show ?case by simp
next
  case (Cons a ps)
  then show ?case by (auto split: sum.splits)
qed

lemma smooth_cloud_zero_weight:
  assumes "p \<in> set (cloud pc)" and "2 \<le> length (neighbors (cloud pc) d p)"
    and "sum_list (map (\<lambda>r. r ! 3) (neighbors (cloud pc) d p)) = 0"
  shows "smooth_cloud d pc = Inl ZeroDivisionError"
proof -
  from assms(2,3) have "smooth_point (cloud pc) d p = Inl ZeroDivisionError"
    by (simp add: smooth_point_error)
  from smooth_rows_raises [OF assms(1) this] obtain e where
    e: "smooth_rows (cloud pc) d (cloud pc) = Inl e" by blast
  from smooth_rows_error [OF e] have "e = ZeroDivisionError"
    by (auto simp: smooth_point_error)
  with e show ?thesis by (simp add: smooth_cloud_def)
qed

text \<open>
  C6. The claim: a point whose neighbourhood weights (the amplitudes of its neighbours) sum
  to zero is discarded, no error is raised and \<^verbatim>\<open>smooth_cloud\<close> completes normally. In the
  code \<^verbatim>\<open>np.average\<close> raises \<^verbatim>\<open>ZeroDivisionError\<close> on such weights, before the check that
  discards a point (\<^verbatim>\<open>np.isclose(weighted_average[4], 0.0)\<close>) is reached: on two rows at the
  same place with amplitude 0, each row has both as neighbours, the weights sum to 0, and
  \<^verbatim>\<open>smooth_cloud\<close> ends with the exception.
\<close>

theorem C6_zero_weights_raise:
  "length (neighbors (cloud zero_weight_cloud) 10 (cloud zero_weight_cloud ! 0)) = 2
   \<and> sum_list (map (\<lambda>r. r ! 3) (neighbors (cloud zero_weight_cloud) 10 (cloud zero_weight_cloud ! 0))) = 0
   \<and> smooth_cloud 10 zero_weight_cloud = Inl ZeroDivisionError"
  by (simp add: zero_weight_cloud_def smooth_cloud_def smooth_point_def neighbors_def
      spatial_distance_def linalg_norm_less_iff np_average_def)




lemma index_of_less: "k \<in> set keys \<Longrightarrow> index_of k keys < length keys"
  by (induction keys) auto

lemma index_of_nth: "k \<in> set keys \<Longrightarrow> keys ! index_of k keys = k"
  by (induction keys) auto

lemma index_of_first: "j < index_of k keys \<Longrightarrow> keys ! j \<noteq> k"
proof (induction keys arbitrary: j)
  case Nil
  then show ?case by simp
next
  case (Cons a as)
  then show ?case by (cases j) (auto split: if_splits)
qed

lemma np_unique_keys:
  "map (\<lambda>i. keys ! i) (np_unique_index keys) = sort (remdups keys)"
proof -
  have "map (\<lambda>k. keys ! index_of k keys) xs = xs" if "set xs \<subseteq> set keys" for xs
    using that by (induction xs) (auto simp: index_of_nth)
  then show ?thesis by (simp add: np_unique_index_def comp_def)
qed

lemma np_unique_index_bound:
  "i \<in> set (np_unique_index keys) \<Longrightarrow> i < length keys"
  by (auto simp: np_unique_index_def index_of_less)

lemma np_unique_index_first:
  assumes "i \<in> set (np_unique_index keys)" and "j < i"
  shows "keys ! j \<noteq> keys ! i"
proof -
  from assms(1) obtain k where k: "k \<in> set keys" and i: "i = index_of k keys"
    by (auto simp: np_unique_index_def)
  from index_of_first [of j k keys] assms(2) i have "keys ! j \<noteq> k" by simp
  with index_of_nth [OF k] i show ?thesis by simp
qed

lemma smooth_cloud_Inr:
  assumes "smooth_cloud d pc = Inr pc'"
  shows "cloud pc' = map (\<lambda>i. retained_rows d pc ! i)
                       (np_unique_index (map rounded_spatial (retained_rows d pc)))"
  using assms
  by (auto simp: smooth_cloud_def retained_rows_def Let_def split: sum.splits)



text \<open>
  The mask is strict. A neighbourhood counted with "at most \<^verbatim>\<open>max_distance\<close>" has at least
  as many members, so a point with fewer than two neighbours in that sense has fewer than
  two in the code's sense as well.
\<close>

lemma neighbors_within:
  "length (neighbors c d p) \<le> length (filter (\<lambda>q. spatial_distance q p \<le> d) c)"
  by (induction c) (auto simp: neighbors_def)



section \<open>Rounding to two decimals\<close>

text \<open>The value of \<open>float64\<close> once the binade of its argument is known.\<close>

lemma powi_powr: "(2::real) powi e = 2 powr of_int e"
  by (simp add: powr_real_of_int power_int_def power_one_over inverse_eq_divide field_simps)

lemma float64_binade:
  assumes "2 powi e \<le> \<bar>v\<bar>" and "\<bar>v\<bar> < 2 powi (e + 1)"
  shows "float64 v = rint (v / 2 powi (e - 52)) * 2 powi (e - 52)"
proof -
  have "(0::real) < 2 powi e" by (simp add: power_int_def)
  with assms(1) have "0 < \<bar>v\<bar>" by linarith
  then have nz: "v \<noteq> 0" by simp
  from assms have "2 powr of_int e \<le> \<bar>v\<bar> \<and> \<bar>v\<bar> < 2 powr (of_int e + 1)"
    by (simp add: powi_powr)
  with nz have "\<lfloor>log 2 \<bar>v\<bar>\<rfloor> = e"
    by (simp add: floor_log_eq_powr_iff)
  with nz show ?thesis by (simp add: float64_def Let_def)
qed

lemma float64_zero: "float64 0 = 0"
  by (simp add: float64_def)

lemma float64_one_hundredth: "float64 (1 / 100) = 5764607523034235 / 2 ^ 59"
  using float64_binade [of "-7" "1 / 100"]
  by (simp add: rint_def Let_def)

lemma float64_one_fiftieth: "float64 (1 / 50) = 5764607523034235 / 2 ^ 58"
  using float64_binade [of "-6" "1 / 50"]
  by (simp add: rint_def Let_def)

lemma float64_03: "float64 (3 / 10) = 5404319552844595 / 2 ^ 54"
  using float64_binade [of "-2" "3 / 10"]
  by (simp add: rint_def Let_def)

lemma float64_06: "float64 (3 / 5) = 5404319552844595 / 2 ^ 53"
  using float64_binade [of "-1" "3 / 5"]
  by (simp add: rint_def Let_def)

lemma float64_09: "float64 (9 / 10) = 8106479329266893 / 2 ^ 53"
  using float64_binade [of "-1" "9 / 10"]
  by (simp add: rint_def Let_def)

lemma rint_float64_03: "rint (float64 (3 / 10)) = 0"
  by (simp add: float64_03 rint_def Let_def)

lemma rint_float64_06: "rint (float64 (3 / 5)) = 1"
  by (simp add: float64_06 rint_def Let_def)

lemma rint_float64_09: "rint (float64 (9 / 10)) = 1"
  by (simp add: float64_09 rint_def Let_def)

lemma np_round2_zero: "np_round2 0 = 0"
  by (simp add: np_round2_def float64_zero rint_def)

lemma np_round2_0003: "np_round2 (3 / 1000) = 0"
  using rint_float64_03 by (simp add: np_round2_def float64_zero)

lemma np_round2_0006: "np_round2 (3 / 500) = 5764607523034235 / 2 ^ 59"
  using rint_float64_06 float64_one_hundredth by (simp add: np_round2_def)

lemma np_round2_0009: "np_round2 (9 / 1000) = 5764607523034235 / 2 ^ 59"
  using rint_float64_09 float64_one_hundredth by (simp add: np_round2_def)

text \<open>
  What \<open>np_round2\<close> returns is a float64 nearest to some k / 100, with k an integer at most a
  half away from the float64 product of the argument with 100.
\<close>

lemma rint_cases:
  "rint v = of_int \<lfloor>v\<rfloor> \<and> v - of_int \<lfloor>v\<rfloor> \<le> 1 / 2
   \<or> rint v = of_int (\<lfloor>v\<rfloor> + 1) \<and> 1 / 2 \<le> v - of_int \<lfloor>v\<rfloor>"
  unfolding rint_def Let_def by (cases "v - of_int \<lfloor>v\<rfloor> < 1 / 2") auto

lemma rint_is_int: "\<exists>k::int. rint v = of_int k"
  using rint_cases [of v] by blast

lemma rint_near: "\<bar>rint v - v\<bar> \<le> 1 / 2"
proof -
  have b: "of_int \<lfloor>v\<rfloor> \<le> v" "v < of_int \<lfloor>v\<rfloor> + 1" by linarith+
  from rint_cases [of v] show ?thesis
  proof
    assume "rint v = of_int \<lfloor>v\<rfloor> \<and> v - of_int \<lfloor>v\<rfloor> \<le> 1 / 2"
    with b show ?thesis by simp
  next
    assume "rint v = of_int (\<lfloor>v\<rfloor> + 1) \<and> 1 / 2 \<le> v - of_int \<lfloor>v\<rfloor>"
    with b show ?thesis by simp
  qed
qed

lemma np_round2_two_decimals:
  "\<exists>k::int. np_round2 v = float64 (of_int k / 100) \<and> \<bar>of_int k - float64 (v * 100)\<bar> \<le> 1 / 2"
proof -
  from rint_is_int obtain k :: int where k: "rint (float64 (v * 100)) = of_int k" by blast
  from rint_near [of "float64 (v * 100)"] k have "\<bar>of_int k - float64 (v * 100)\<bar> \<le> 1 / 2"
    by simp
  with k show ?thesis by (auto simp: np_round2_def)
qed

text \<open>
  The float64 nearest to 0.015 lies below 0.015. Its exact rounding to two decimals would
  be 0.01; numpy rounds the product to 1.5 first and returns the float64 of 0.02. The
  float64 nearest to 0.01 comes back unchanged.
\<close>

lemma float64_0015: "float64 (3 / 200) = 1080863910568919 / 2 ^ 56"
  using float64_binade [of "-7" "3 / 200"]
  by (simp add: rint_def Let_def)

lemma float64_0015_times_100: "float64 (float64 (3 / 200) * 100) = 3 / 2"
  using float64_binade [of 0 "1080863910568919 / 2 ^ 56 * 100"]
  by (simp add: float64_0015 rint_def Let_def)

lemma np_round2_double_0015:
  "np_round2 (float64 (3 / 200)) = float64 (1 / 50)
   \<and> rint (float64 (3 / 200) * 100) / 100 = 1 / 100"
proof -
  have "rint (3 / 2) = 2" by (simp add: rint_def Let_def)
  then have "np_round2 (float64 (3 / 200)) = float64 (1 / 50)"
    by (simp add: np_round2_def float64_0015_times_100)
  moreover have "rint (float64 (3 / 200) * 100) / 100 = 1 / 100"
    by (simp add: float64_0015 rint_def Let_def)
  ultimately show ?thesis by simp
qed

lemma float64_001_times_100: "float64 (float64 (1 / 100) * 100) = 1"
  using float64_binade [of 0 "5764607523034235 / 2 ^ 59 * 100"]
  by (simp add: float64_one_hundredth rint_def Let_def)

lemma np_round2_double_001: "np_round2 (float64 (1 / 100)) = float64 (1 / 100)"
  by (simp add: np_round2_def float64_001_times_100 rint_def)

lemma np_round2_double_001_value:
  "np_round2 (5764607523034235 / 576460752303423488) = 5764607523034235 / 576460752303423488"
  using np_round2_double_001 by (simp add: float64_one_hundredth)

lemma np_round2_double_0015_value:
  "np_round2 (1080863910568919 / 72057594037927936) = 5764607523034235 / 288230376151711744"
  using np_round2_double_0015 by (simp add: float64_0015 float64_one_fiftieth)

text \<open>
  Hence two rows whose x are these two float64 stay apart: \<^verbatim>\<open>smooth_cloud\<close> keeps one row of
  each pair.
\<close>

lemma neighbors_half_way:
  "neighbors (cloud half_way_cloud) (1 / 1000) (cloud half_way_cloud ! 0)
     = [cloud half_way_cloud ! 0, cloud half_way_cloud ! 1]"
  "neighbors (cloud half_way_cloud) (1 / 1000) (cloud half_way_cloud ! 1)
     = [cloud half_way_cloud ! 0, cloud half_way_cloud ! 1]"
  "neighbors (cloud half_way_cloud) (1 / 1000) (cloud half_way_cloud ! 2)
     = [cloud half_way_cloud ! 2, cloud half_way_cloud ! 3]"
  "neighbors (cloud half_way_cloud) (1 / 1000) (cloud half_way_cloud ! 3)
     = [cloud half_way_cloud ! 2, cloud half_way_cloud ! 3]"
  unfolding neighbors_def spatial_distance_def linalg_norm_less_iff half_way_cloud_def
  by (simp_all add: power2_eq_square float64_one_hundredth float64_0015)

lemma smooth_half_way_cloud:
  "smooth_cloud (1 / 1000) half_way_cloud
     = Inr \<lparr>event_number = 4,
            cloud = [[float64 (1 / 100), 0, 0, 1, 1, 3 / 2, 0, 1],
                     [float64 (3 / 200), 0, 0, 1, 1, 7 / 2, 0, 1]]\<rparr>"
  using neighbors_half_way
  by (simp add: half_way_cloud_def smooth_cloud_def smooth_point_def
      np_average_def isclose_def np_unique_index_def rounded_spatial_def np_round2_zero
      np_round2_double_001_value np_round2_double_0015_value float64_one_hundredth float64_0015
      Let_def upt_rec)

text \<open>The three points on a line: three different averages, two of them with the same key.\<close>

lemma neighbors_colinear:
  "neighbors [[3 / 250, 0, 0, 1, 1, 1, 0, 1], [3 / 500, 0, 0, 1, 1, 2, 0, 1],
              [0, 0, 0, 1, 1, 3, 0, 1]] (1 / 100) [3 / 250, 0, 0, 1, 1, 1, 0, 1]
     = [[3 / 250, 0, 0, 1, 1, 1, 0, 1], [3 / 500, 0, 0, 1, 1, 2, 0, 1]]"
  "neighbors [[3 / 250, 0, 0, 1, 1, 1, 0, 1], [3 / 500, 0, 0, 1, 1, 2, 0, 1],
              [0, 0, 0, 1, 1, 3, 0, 1]] (1 / 100) [3 / 500, 0, 0, 1, 1, 2, 0, 1]
     = [[3 / 250, 0, 0, 1, 1, 1, 0, 1], [3 / 500, 0, 0, 1, 1, 2, 0, 1],
        [0, 0, 0, 1, 1, 3, 0, 1]]"
  "neighbors [[3 / 250, 0, 0, 1, 1, 1, 0, 1], [3 / 500, 0, 0, 1, 1, 2, 0, 1],
              [0, 0, 0, 1, 1, 3, 0, 1]] (1 / 100) [0, 0, 0, 1, 1, 3, 0, 1]
     = [[3 / 500, 0, 0, 1, 1, 2, 0, 1], [0, 0, 0, 1, 1, 3, 0, 1]]"
  unfolding neighbors_def spatial_distance_def linalg_norm_less_iff
  by (simp_all add: power2_eq_square)

lemma retained_colinear_cloud:
  "retained_rows (1 / 100) colinear_cloud
     = [[9 / 1000, 0, 0, 1, 1, 3 / 2, 0, 1], [3 / 500, 0, 0, 1, 1, 2, 0, 1],
        [3 / 1000, 0, 0, 1, 1, 5 / 2, 0, 1]]"
  by (simp add: colinear_cloud_def retained_rows_def smooth_point_def neighbors_colinear
      np_average_def isclose_def Let_def upt_rec)

lemma smooth_colinear_cloud:
  "smooth_cloud (1 / 100) colinear_cloud
     = Inr \<lparr>event_number = 4,
            cloud = [[3 / 1000, 0, 0, 1, 1, 5 / 2, 0, 1], [9 / 1000, 0, 0, 1, 1, 3 / 2, 0, 1]]\<rparr>"
  by (simp add: colinear_cloud_def smooth_cloud_def smooth_point_def neighbors_colinear
      np_average_def isclose_def np_unique_index_def rounded_spatial_def np_round2_zero
      np_round2_0003 np_round2_0006 np_round2_0009 Let_def upt_rec)

text \<open>
  C8. When \<^verbatim>\<open>smooth_cloud\<close> returns, the first three columns of the returned rows, rounded to
  two decimals as \<^verbatim>\<open>np.round\<close> rounds them, are pairwise different; they are exactly the
  rounded triples of the rows kept after the zero-amplitude filter; each returned row is
  the first row of that array with its rounded triple; and every component of a rounded
  triple is the float64 of some k / 100, k an integer at most a half away from the float64
  product of the coordinate with 100.
\<close>

theorem C8_rounded_coordinates_distinct:
  assumes "smooth_cloud max_distance pc = Inr pc'"
  shows "distinct (map rounded_spatial (cloud pc'))
       \<and> set (map rounded_spatial (cloud pc')) = set (map rounded_spatial (retained_rows max_distance pc))
       \<and> (\<forall>r \<in> set (cloud pc'). \<exists>i < length (retained_rows max_distance pc).
             r = retained_rows max_distance pc ! i \<and>
             (\<forall>j < i. rounded_spatial (retained_rows max_distance pc ! j) \<noteq> rounded_spatial r))
       \<and> (\<forall>r \<in> set (cloud pc').
             list_all2 (\<lambda>key v. \<exists>k::int. key = float64 (of_int k / 100)
                                    \<and> \<bar>of_int k - float64 (v * 100)\<bar> \<le> 1 / 2)
               (rounded_spatial r) (take 3 r))"
proof -
  let ?rows = "retained_rows max_distance pc"
  let ?keys = "map rounded_spatial ?rows"
  let ?idx = "np_unique_index ?keys"
  have out: "cloud pc' = map (\<lambda>i. ?rows ! i) ?idx" by (rule smooth_cloud_Inr [OF assms])
  have bound: "i < length ?rows" if "i \<in> set ?idx" for i
    using np_unique_index_bound [OF that] by simp
  have "map rounded_spatial (cloud pc') = map (\<lambda>i. ?keys ! i) ?idx"
    using bound by (simp add: out)
  then have keys: "map rounded_spatial (cloud pc') = sort (remdups ?keys)"
    by (simp only: np_unique_keys)
  have d: "distinct (map rounded_spatial (cloud pc'))" by (simp add: keys)
  have s: "set (map rounded_spatial (cloud pc')) = set ?keys" by (simp add: keys)
  have f: "\<exists>i < length ?rows. r = ?rows ! i \<and>
             (\<forall>j < i. rounded_spatial (?rows ! j) \<noteq> rounded_spatial r)"
    if "r \<in> set (cloud pc')" for r
  proof -
    from that out obtain i where i: "i \<in> set ?idx" and r: "r = ?rows ! i" by auto
    have "rounded_spatial (?rows ! j) \<noteq> rounded_spatial r" if "j < i" for j
    proof -
      from np_unique_index_first [OF i that] have "?keys ! j \<noteq> ?keys ! i" .
      with that bound [OF i] r show ?thesis by simp
    qed
    with bound [OF i] r show ?thesis by blast
  qed
  have t: "list_all2 (\<lambda>key v. \<exists>k::int. key = float64 (of_int k / 100)
                                    \<and> \<bar>of_int k - float64 (v * 100)\<bar> \<le> 1 / 2)
               (rounded_spatial r) (take 3 r)" for r
    unfolding rounded_spatial_def list.rel_map list_all2_same
    using np_round2_two_decimals by blast
  from d s f t show ?thesis by blast
qed

theorem C8_rounded_coordinates_distinct_witness:
  "smooth_cloud (1 / 100) colinear_cloud
     = Inr \<lparr>event_number = 4,
            cloud = [[3 / 1000, 0, 0, 1, 1, 5 / 2, 0, 1], [9 / 1000, 0, 0, 1, 1, 3 / 2, 0, 1]]\<rparr>
   \<and> retained_rows (1 / 100) colinear_cloud
       = [[9 / 1000, 0, 0, 1, 1, 3 / 2, 0, 1], [3 / 500, 0, 0, 1, 1, 2, 0, 1],
          [3 / 1000, 0, 0, 1, 1, 5 / 2, 0, 1]]
   \<and> map rounded_spatial (retained_rows (1 / 100) colinear_cloud)
       = [[float64 (1 / 100), 0, 0], [float64 (1 / 100), 0, 0], [0, 0, 0]]
   \<and> distinct (map rounded_spatial
        [[3 / 1000, 0, 0, 1, 1, 5 / 2, 0, 1], [9 / 1000, 0, 0, 1, 1, 3 / 2, 0, 1]])"
proof -
  have k: "map rounded_spatial (retained_rows (1 / 100) colinear_cloud)
       = [[float64 (1 / 100), 0, 0], [float64 (1 / 100), 0, 0], [0, 0, 0]]"
    by (simp add: retained_colinear_cloud rounded_spatial_def np_round2_zero np_round2_0003
        np_round2_0006 np_round2_0009 float64_one_hundredth)
  from C8_rounded_coordinates_distinct [OF smooth_colinear_cloud]
  have "distinct (map rounded_spatial (cloud \<lparr>event_number = 4,
            cloud = [[3 / 1000, 0, 0, 1, 1, 5 / 2, 0, 1], [9 / 1000, 0, 0, 1, 1, 3 / 2, 0, 1]]\<rparr>))"
    by blast
  with smooth_colinear_cloud retained_colinear_cloud k show ?thesis by simp
qed

end
